theory Spec2Isabelle
  imports Complex_Main
begin

section \<open>Blue-chip dividend stock screener (screener.py)\<close>

text \<open>
  A shallow embedding of \<^verbatim>\<open>screener.py\<close>. Conventions of the model:
  \<^item> a Python \<^verbatim>\<open>float\<close> is a \<open>real\<close>: values are finite and arithmetic is exact
    (NaN, infinities and rounding are outside the model);
  \<^item> an \<^verbatim>\<open>Optional[float]\<close> field is a \<open>real option\<close>, \<^verbatim>\<open>None\<close> being \<open>None\<close>;
  \<^item> a Python \<^verbatim>\<open>int\<close> is an \<open>int\<close>;
  \<^item> a Python \<^verbatim>\<open>str\<close> is a \<open>string\<close> of ASCII characters.
\<close>

subsection \<open>Python string operations\<close>

text \<open>\<^verbatim>\<open>s.startswith(p)\<close>\<close>

fun starts_with :: "string \<Rightarrow> string \<Rightarrow> bool" where
  "starts_with s [] = True"
| "starts_with [] (p # ps) = False"
| "starts_with (c # cs) (p # ps) = (c = p \<and> starts_with cs ps)"

text \<open>\<^verbatim>\<open>needle in hay\<close> on strings: \<open>needle\<close> occurs as a contiguous substring.\<close>

fun str_in :: "string \<Rightarrow> string \<Rightarrow> bool" where
  "str_in needle [] = (needle = [])"
| "str_in needle (c # cs) = (starts_with (c # cs) needle \<or> str_in needle cs)"

subsection \<open>Fixed-point formatting of floats\<close>

definition digit_char :: "nat \<Rightarrow> char" where
  "digit_char d = ''0123456789'' ! d"

fun str_of_nat :: "nat \<Rightarrow> string" where
  "str_of_nat n = (if n < 10 then [digit_char n]
                   else str_of_nat (n div 10) @ [digit_char (n mod 10)])"

declare str_of_nat.simps [simp del]

definition round_half_even :: "real \<Rightarrow> int" where
  "round_half_even r =
     (let f = \<lfloor>r\<rfloor>; d = r - of_int f
      in if d < 1 / 2 then f
         else if 1 / 2 < d then f + 1
         else if even f then f else f + 1)"

definition zero_pad :: "nat \<Rightarrow> string \<Rightarrow> string" where
  "zero_pad w s = replicate (w - length s) (CHR ''0'') @ s"

text \<open>
  \<^verbatim>\<open>f"{value:.{decimal}f}"\<close>: the value rounded (ties to even) to \<open>decimal\<close> places, with a
  leading minus sign for a negative value.
\<close>

definition format_fixed :: "nat \<Rightarrow> real \<Rightarrow> string" where
  "format_fixed decimal v =
     (let n = nat (round_half_even (\<bar>v\<bar> * 10 ^ decimal));
          whole = n div 10 ^ decimal;
          frac = n mod 10 ^ decimal
      in (if v < 0 then ''-'' else '''') @ str_of_nat whole @
         (if decimal = 0 then '''' else ''.'' @ zero_pad decimal (str_of_nat frac)))"

subsection \<open>Data model\<close>

record ScreeningCriteria =
  min_dividend_yield :: real
  max_dividend_yield :: real
  min_dividend_years :: int
  max_payout_ratio :: real
  max_payout_ratio_reit :: real
  min_interest_coverage :: real
  min_interest_coverage_reit :: real
  max_debt_to_equity :: real
  min_roic :: real
  min_roe :: real
  max_pe_ratio :: real
  min_expected_return :: real

text \<open>The defaults of the dataclass.\<close>

definition default_criteria :: ScreeningCriteria where
  "default_criteria =
     \<lparr> min_dividend_yield = 1.5, max_dividend_yield = 8.0, min_dividend_years = 5,
       max_payout_ratio = 50.0, max_payout_ratio_reit = 85.0,
       min_interest_coverage = 10.0, min_interest_coverage_reit = 4.0,
       max_debt_to_equity = 1.0, min_roic = 12.0, min_roe = 15.0,
       max_pe_ratio = 25.0, min_expected_return = 8.0 \<rparr>"

record StockAnalysis =
  ticker :: string
  name :: string
  sector :: string
  dividend_yield :: "real option"
  payout_ratio :: "real option"
  dividend_growth_5yr :: "real option"
  interest_coverage :: "real option"
  debt_to_equity :: "real option"
  current_ratio :: "real option"
  roic :: "real option"
  roe :: "real option"
  profit_margin :: "real option"
  pe_ratio :: "real option"
  forward_pe :: "real option"
  price_to_book :: "real option"
  expected_return :: "real option"
  passes_screen :: bool
  score :: int
  flags :: "string list"

text \<open>\<^verbatim>\<open>StockAnalysis(ticker=..., name=..., sector=...)\<close>: every other field at its default.\<close>

definition new_analysis :: "string \<Rightarrow> string \<Rightarrow> string \<Rightarrow> StockAnalysis" where
  "new_analysis t n s =
     \<lparr> ticker = t, name = n, sector = s,
       dividend_yield = None, payout_ratio = None, dividend_growth_5yr = None,
       interest_coverage = None, debt_to_equity = None, current_ratio = None,
       roic = None, roe = None, profit_margin = None,
       pe_ratio = None, forward_pe = None, price_to_book = None,
       expected_return = None,
       passes_screen = False, score = 0, flags = [] \<rparr>"

text \<open>
  Truthiness of an optional float, as in \<^verbatim>\<open>if analysis.dividend_yield:\<close>. The test fails
  for \<^verbatim>\<open>None\<close> and for \<^verbatim>\<open>0.0\<close>; when it succeeds the branch sees a nonzero value.
\<close>

definition truthy :: "real option \<Rightarrow> real option" where
  "truthy x = (case x of None \<Rightarrow> None | Some v \<Rightarrow> if v = 0 then None else Some v)"

subsection \<open>The Rule Evaluator\<close>

text \<open>
  \<^verbatim>\<open>screen_stock\<close> threads the local variables \<^verbatim>\<open>score\<close> and \<^verbatim>\<open>flags\<close> through eight
  checks. Each check is a function on the pair of the two; \<^verbatim>\<open>flags.append(f)\<close> is
  \<open>fs @ [f]\<close>.
\<close>

type_synonym tally = "int \<times> string list"

definition high_leverage_sector :: "StockAnalysis \<Rightarrow> bool" where
  "high_leverage_sector analysis =
     (let is_reit = (str_in ''REIT'' (sector analysis) \<or> str_in ''Real Estate'' (sector analysis));
          is_utility = str_in ''Utilities'' (sector analysis)
      in is_reit \<or> is_utility)"

definition dividend_yield_check :: "StockAnalysis \<Rightarrow> ScreeningCriteria \<Rightarrow> tally \<Rightarrow> tally" where
  "dividend_yield_check analysis criteria st =
     (case st of (s, fs) \<Rightarrow>
        (case truthy (dividend_yield analysis) of
           Some dy \<Rightarrow>
             if dy < min_dividend_yield criteria
               then (s, fs @ [''Low dividend yield: '' @ format_fixed 2 dy @ ''%''])
             else if dy > max_dividend_yield criteria
               then (s, fs @ [''YIELD TRAP WARNING: '' @ format_fixed 2 dy @ ''% (unusually high)''])
             else (s + 2, fs)
         | None \<Rightarrow> (s, fs @ [''No dividend data''])))"

definition payout_ratio_check :: "StockAnalysis \<Rightarrow> ScreeningCriteria \<Rightarrow> tally \<Rightarrow> tally" where
  "payout_ratio_check analysis criteria st =
     (case st of (s, fs) \<Rightarrow>
        (case truthy (payout_ratio analysis) of
           Some pr \<Rightarrow>
             (let max_payout = (if high_leverage_sector analysis
                                then max_payout_ratio_reit criteria
                                else max_payout_ratio criteria)
              in if pr > max_payout
                   then (s, fs @ [''High payout ratio: '' @ format_fixed 1 pr @ ''%''])
                 else if pr > 90
                   then (s, fs @ [''DIVIDEND AT RISK: Payout ratio '' @ format_fixed 1 pr @ ''%''])
                 else (s + 2, fs))
         | None \<Rightarrow> (s, fs)))"

definition dividend_growth_check :: "StockAnalysis \<Rightarrow> ScreeningCriteria \<Rightarrow> tally \<Rightarrow> tally" where
  "dividend_growth_check analysis criteria st =
     (case st of (s, fs) \<Rightarrow>
        (case truthy (dividend_growth_5yr analysis) of
           Some g \<Rightarrow>
             if g > 5 then (if g > 10 then (s + 2 + 1, fs) else (s + 2, fs))
             else if g < 0
               then (s, fs @ [''Declining dividends: '' @ format_fixed 1 g @ ''%''])
             else (s, fs)
         | None \<Rightarrow> (s, fs)))"

definition interest_coverage_check :: "StockAnalysis \<Rightarrow> ScreeningCriteria \<Rightarrow> tally \<Rightarrow> tally" where
  "interest_coverage_check analysis criteria st =
     (case st of (s, fs) \<Rightarrow>
        (case truthy (interest_coverage analysis) of
           Some ic \<Rightarrow>
             (let min_coverage = (if high_leverage_sector analysis
                                  then min_interest_coverage_reit criteria
                                  else min_interest_coverage criteria)
              in if ic < min_coverage
                   then (s, fs @ [''Low interest coverage: '' @ format_fixed 1 ic @ ''x''])
                 else (s + 2, fs))
         | None \<Rightarrow> (s, fs)))"

definition debt_to_equity_check :: "StockAnalysis \<Rightarrow> ScreeningCriteria \<Rightarrow> tally \<Rightarrow> tally" where
  "debt_to_equity_check analysis criteria st =
     (case st of (s, fs) \<Rightarrow>
        (case truthy (debt_to_equity analysis) of
           Some de \<Rightarrow>
             if \<not> high_leverage_sector analysis \<and> de > max_debt_to_equity criteria
               then (s, fs @ [''High debt/equity: '' @ format_fixed 2 de])
             else if de < 0.5 then (s + 2, fs)
             else (s + 1, fs)
         | None \<Rightarrow> (s, fs)))"

text \<open>
  \<^verbatim>\<open>analysis.roic and analysis.roic >= criteria.min_roic\<close> is true exactly when the field
  is truthy and the comparison holds. The two \<^verbatim>\<open>elif\<close> tests on \<^verbatim>\<open>analysis.roe\<close> share the
  truthiness test, so they are the two branches under one \<open>case\<close>.
\<close>

definition truthy_and :: "real option \<Rightarrow> (real \<Rightarrow> bool) \<Rightarrow> bool" where
  "truthy_and x P = (case truthy x of Some v \<Rightarrow> P v | None \<Rightarrow> False)"

definition roic_roe_check :: "StockAnalysis \<Rightarrow> ScreeningCriteria \<Rightarrow> tally \<Rightarrow> tally" where
  "roic_roe_check analysis criteria st =
     (case st of (s, fs) \<Rightarrow>
        if truthy_and (roic analysis) (\<lambda>v. v \<ge> min_roic criteria) then (s + 2, fs)
        else
          (case truthy (roe analysis) of
             Some r \<Rightarrow>
               if r \<ge> min_roe criteria then (s + 1, fs)
               else if r < 10
                 then (s, fs @ [''Low return on equity: '' @ format_fixed 1 r @ ''%''])
               else (s, fs)
           | None \<Rightarrow> (s, fs)))"

definition valuation_check :: "StockAnalysis \<Rightarrow> ScreeningCriteria \<Rightarrow> tally \<Rightarrow> tally" where
  "valuation_check analysis criteria st =
     (case st of (s, fs) \<Rightarrow>
        (case truthy (pe_ratio analysis) of
           Some pe \<Rightarrow>
             if pe > max_pe_ratio criteria
               then (s, fs @ [''High P/E ratio: '' @ format_fixed 1 pe])
             else if pe < 15 then (s + 2, fs)
             else (s + 1, fs)
         | None \<Rightarrow> (s, fs)))"

definition expected_return_check :: "StockAnalysis \<Rightarrow> ScreeningCriteria \<Rightarrow> tally \<Rightarrow> tally" where
  "expected_return_check analysis criteria st =
     (case st of (s, fs) \<Rightarrow>
        (case truthy (expected_return analysis) of
           Some er \<Rightarrow>
             if er \<ge> min_expected_return criteria then (s + 2, fs)
             else if er \<ge> 6 then (s + 1, fs)
             else (s, fs)
         | None \<Rightarrow> (s, fs)))"

text \<open>The local variables \<^verbatim>\<open>score\<close> and \<^verbatim>\<open>flags\<close> after the last check.\<close>

definition run_checks :: "StockAnalysis \<Rightarrow> ScreeningCriteria \<Rightarrow> tally" where
  "run_checks analysis criteria =
     expected_return_check analysis criteria
      (valuation_check analysis criteria
        (roic_roe_check analysis criteria
          (debt_to_equity_check analysis criteria
            (interest_coverage_check analysis criteria
              (dividend_growth_check analysis criteria
                (payout_ratio_check analysis criteria
                  (dividend_yield_check analysis criteria (0, []))))))))"

definition screen_stock :: "StockAnalysis \<Rightarrow> ScreeningCriteria \<Rightarrow> StockAnalysis" where
  "screen_stock analysis criteria =
     (case run_checks analysis criteria of (s, fs) \<Rightarrow>
        analysis\<lparr> score := s, flags := fs,
                  passes_screen :=
                    (s \<ge> 8 \<and>
                     length (filter (\<lambda>f. str_in ''WARNING'' f \<or> str_in ''AT RISK'' f) fs) = 0) \<rparr>)"

text \<open>
  \<^verbatim>\<open>screen_stock\<close> starts with \<^verbatim>\<open>if analysis is None: return None\<close>; with the argument
  typed as an optional analysis, that guard is the first equation.
\<close>

fun screen_stock_opt :: "StockAnalysis option \<Rightarrow> ScreeningCriteria \<Rightarrow> StockAnalysis option" where
  "screen_stock_opt None criteria = None"
| "screen_stock_opt (Some analysis) criteria = Some (screen_stock analysis criteria)"

subsection \<open>The Metric Deriver\<close>

text \<open>
  What \<^verbatim>\<open>yf.Ticker(ticker)\<close> supplies: the entries of the \<^verbatim>\<open>info\<close> dictionary that
  \<^verbatim>\<open>get_stock_data\<close> reads (\<open>None\<close> for a missing key), the dividend series and the
  financial statements. A dividend is a pair of its calendar year and its amount. A
  statement table is a list of rows, each a label with its cells, most recent period first.
  For \<open>dividends\<close> and \<open>financials\<close>, \<open>None\<close> stands for an access that raises (and, for
  \<open>financials\<close>, also for the value \<^verbatim>\<open>None\<close>): the source handles both by leaving the metric
  absent.
\<close>

type_synonym dataframe = "(string \<times> real list) list"

record ProviderData =
  info_shortName :: "string option"
  info_sector :: "string option"
  info_dividendYield :: "real option"
  info_payoutRatio :: "real option"
  info_debtToEquity :: "real option"
  info_currentRatio :: "real option"
  info_returnOnEquity :: "real option"
  info_returnOnAssets :: "real option"
  info_profitMargins :: "real option"
  info_trailingPE :: "real option"
  info_forwardPE :: "real option"
  info_priceToBook :: "real option"
  info_earningsGrowth :: "real option"
  dividends :: "(int \<times> real) list option"
  financials :: "dataframe option"

text \<open>
  \<^verbatim>\<open>dividends.resample('YE').sum()\<close>: one bucket for every calendar year from the earliest
  to the latest dividend, each the sum of that year's amounts (0 for a year without one).
\<close>

definition resample_YE_sum :: "(int \<times> real) list \<Rightarrow> real list" where
  "resample_YE_sum ds =
     (case ds of
        [] \<Rightarrow> []
      | d # ds' \<Rightarrow>
          (let lo = fold min (map fst ds') (fst d);
               hi = fold max (map fst ds') (fst d)
           in map (\<lambda>y. sum_list (map snd (filter (\<lambda>e. fst e = y) ds))) [lo..hi]))"

text \<open>
  The growth computed from the annual totals: \<^verbatim>\<open>iloc[-5]\<close> and \<^verbatim>\<open>iloc[-1]\<close> of a series
  of at least five entries. \<^verbatim>\<open>** 0.2\<close> is \<open>powr\<close>, which agrees with it on a nonnegative
  base.
\<close>

definition annual_growth :: "real list \<Rightarrow> real option" where
  "annual_growth annual_divs =
     (if length annual_divs \<ge> 5 then
        (let oldest = annual_divs ! (length annual_divs - 5);
             newest = annual_divs ! (length annual_divs - 1)
         in if oldest > 0 then Some (((newest / oldest) powr 0.2 - 1) * 100) else None)
      else None)"

definition dividend_growth :: "(int \<times> real) list option \<Rightarrow> real option" where
  "dividend_growth dv =
     (case dv of
        None \<Rightarrow> None
      | Some ds \<Rightarrow> if length ds > 0 then annual_growth (resample_YE_sum ds) else None)"

text \<open>\<^verbatim>\<open>financials.empty\<close>: no rows or no columns.\<close>

definition df_empty :: "dataframe \<Rightarrow> bool" where
  "df_empty df = (case df of [] \<Rightarrow> True | (label, cells) # _ \<Rightarrow> cells = [])"

text \<open>
  What \<^verbatim>\<open>financials.loc[label].iloc[0] if label in financials.index else None\<close> can be:
  \<^verbatim>\<open>None\<close> when no row carries the label; a number when exactly one row does; and, when
  several rows carry it, a \<^verbatim>\<open>Series\<close>, since \<^verbatim>\<open>.loc\<close> then selects a frame and \<^verbatim>\<open>.iloc[0]\<close>
  its first row.
\<close>

datatype cell = Missing | Scalar real | Series

text \<open>The outer \<open>None\<close> is the \<^verbatim>\<open>IndexError\<close> of \<^verbatim>\<open>iloc[0]\<close> on a row without cells.\<close>

definition loc_iloc0 :: "dataframe \<Rightarrow> string \<Rightarrow> cell option" where
  "loc_iloc0 df label =
     (case filter (\<lambda>row. fst row = label) df of
        [] \<Rightarrow> Some Missing
      | [row] \<Rightarrow> (case snd row of [] \<Rightarrow> None | x # _ \<Rightarrow> Some (Scalar x))
      | _ # _ # _ \<Rightarrow> Some Series)"

text \<open>
  The truth value of such a value in a condition: \<^verbatim>\<open>None\<close> and \<^verbatim>\<open>0.0\<close> are false, any
  other number is true, and a \<^verbatim>\<open>Series\<close> raises \<^verbatim>\<open>ValueError\<close> (the result \<open>None\<close>).
\<close>

definition truth :: "cell \<Rightarrow> bool option" where
  "truth v = (case v of Missing \<Rightarrow> Some False | Scalar x \<Rightarrow> Some (x \<noteq> 0) | Series \<Rightarrow> None)"

text \<open>
  The interest-coverage block; any exception inside it is caught and leaves the metric
  absent. The condition \<^verbatim>\<open>ebit and interest and interest != 0\<close> tests \<^verbatim>\<open>ebit\<close> first and
  \<^verbatim>\<open>interest\<close> only when \<^verbatim>\<open>ebit\<close> is true.
\<close>

definition interest_coverage_of :: "dataframe option \<Rightarrow> real option" where
  "interest_coverage_of fin =
     (case fin of
        None \<Rightarrow> None
      | Some df \<Rightarrow>
          if df_empty df then None
          else
            (case loc_iloc0 df ''EBIT'' of
               None \<Rightarrow> None
             | Some ebit \<Rightarrow>
                 (case loc_iloc0 df ''Interest Expense'' of
                    None \<Rightarrow> None
                  | Some interest \<Rightarrow>
                      (case truth ebit of
                         None \<Rightarrow> None
                       | Some False \<Rightarrow> None
                       | Some True \<Rightarrow>
                           (case truth interest of
                              None \<Rightarrow> None
                            | Some False \<Rightarrow> None
                            | Some True \<Rightarrow>
                                (case (ebit, interest) of
                                   (Scalar e, Scalar i) \<Rightarrow>
                                     if i \<noteq> 0 then Some \<bar>e / i\<bar> else None
                                 | _ \<Rightarrow> None))))))"

text \<open>\<^verbatim>\<open>x = info.get(key); if x: x *= 100\<close>\<close>

definition percent_if_truthy :: "real option \<Rightarrow> real option" where
  "percent_if_truthy x = (case truthy x of Some v \<Rightarrow> Some (v * 100) | None \<Rightarrow> x)"

text \<open>\<^verbatim>\<open>x = info.get('debtToEquity'); if x: x /= 100\<close>\<close>

definition ratio_if_truthy :: "real option \<Rightarrow> real option" where
  "ratio_if_truthy x = (case truthy x of Some v \<Rightarrow> Some (v / 100) | None \<Rightarrow> x)"

text \<open>The ROIC block, given \<^verbatim>\<open>info.get('returnOnAssets')\<close> and the debt/equity already derived.\<close>

definition roic_estimate :: "real option \<Rightarrow> real option \<Rightarrow> real option" where
  "roic_estimate return_on_assets de =
     (case truthy return_on_assets of
        None \<Rightarrow> return_on_assets
      | Some v \<Rightarrow>
          (let r = v * 100
           in case truthy de of
                None \<Rightarrow> Some r
              | Some d \<Rightarrow> (let leverage_factor = 1 + d in Some (r * leverage_factor * 0.8))))"

text \<open>The expected-return block.\<close>

definition expected_return_of :: "real option \<Rightarrow> real option \<Rightarrow> real option \<Rightarrow> real option" where
  "expected_return_of dy growth earnings_growth =
     (case truthy dy of
        None \<Rightarrow> None
      | Some y \<Rightarrow>
          (case truthy growth of
             Some g \<Rightarrow> Some (y + g)
           | None \<Rightarrow>
               (case truthy earnings_growth of
                  Some eg \<Rightarrow> Some (y + eg * 100)
                | None \<Rightarrow> None)))"

text \<open>
  \<^verbatim>\<open>get_stock_data\<close>, with the provider's answer for the ticker as a parameter. It returns
  \<open>None\<close> when \<^verbatim>\<open>info\<close> has no \<^verbatim>\<open>shortName\<close>.
\<close>

definition get_stock_data :: "string \<Rightarrow> ProviderData \<Rightarrow> StockAnalysis option" where
  "get_stock_data tkr stock =
     (case info_shortName stock of
        None \<Rightarrow> None
      | Some short_name \<Rightarrow>
          (let analysis = new_analysis tkr short_name
                            (case info_sector stock of None \<Rightarrow> ''Unknown'' | Some s \<Rightarrow> s);
               analysis = analysis\<lparr>dividend_yield := info_dividendYield stock\<rparr>;
               analysis = analysis\<lparr>payout_ratio := percent_if_truthy (info_payoutRatio stock)\<rparr>;
               analysis = analysis\<lparr>dividend_growth_5yr := dividend_growth (dividends stock)\<rparr>;
               analysis = analysis\<lparr>debt_to_equity := ratio_if_truthy (info_debtToEquity stock)\<rparr>;
               analysis = analysis\<lparr>current_ratio := info_currentRatio stock\<rparr>;
               analysis = analysis\<lparr>interest_coverage := interest_coverage_of (financials stock)\<rparr>;
               analysis = analysis\<lparr>roe := percent_if_truthy (info_returnOnEquity stock)\<rparr>;
               analysis = analysis\<lparr>roic := roic_estimate (info_returnOnAssets stock)
                                                (debt_to_equity analysis)\<rparr>;
               analysis = analysis\<lparr>profit_margin := percent_if_truthy (info_profitMargins stock)\<rparr>;
               analysis = analysis\<lparr>pe_ratio := info_trailingPE stock\<rparr>;
               analysis = analysis\<lparr>forward_pe := info_forwardPE stock\<rparr>;
               analysis = analysis\<lparr>price_to_book := info_priceToBook stock\<rparr>;
               analysis = analysis\<lparr>expected_return :=
                            expected_return_of (dividend_yield analysis)
                              (dividend_growth_5yr analysis) (info_earningsGrowth stock)\<rparr>
           in Some analysis))"

text \<open>A provider answer with a name and nothing else.\<close>

definition bare_provider :: "string \<Rightarrow> ProviderData" where
  "bare_provider n =
     \<lparr> info_shortName = Some n, info_sector = None, info_dividendYield = None,
       info_payoutRatio = None, info_debtToEquity = None, info_currentRatio = None,
       info_returnOnEquity = None, info_returnOnAssets = None, info_profitMargins = None,
       info_trailingPE = None, info_forwardPE = None, info_priceToBook = None,
       info_earningsGrowth = None, dividends = None, financials = None \<rparr>"

subsection \<open>Watchlist files\<close>

text \<open>
  \<^verbatim>\<open>str.isspace\<close> on ASCII: tab, line feed, vertical tab, form feed, carriage return, the
  four separators 0x1C to 0x1F, and the space.
\<close>

definition is_space :: "char \<Rightarrow> bool" where
  "is_space c = (c \<in> set [CHR 0x09, CHR 0x0A, CHR 0x0B, CHR 0x0C, CHR 0x0D,
                         CHR 0x1C, CHR 0x1D, CHR 0x1E, CHR 0x1F, CHR 0x20])"

text \<open>\<^verbatim>\<open>s.strip()\<close>\<close>

definition strip :: "string \<Rightarrow> string" where
  "strip s = rev (dropWhile is_space (rev (dropWhile is_space s)))"

text \<open>\<^verbatim>\<open>s.split()\<close>: the maximal runs of characters that are not whitespace.\<close>

fun split_acc :: "string \<Rightarrow> string \<Rightarrow> string list" where
  "split_acc cur [] = (if cur = [] then [] else [cur])"
| "split_acc cur (c # cs) =
     (if is_space c then (if cur = [] then split_acc [] cs else cur # split_acc [] cs)
      else split_acc (cur @ [c]) cs)"

definition split_ws :: "string \<Rightarrow> string list" where
  "split_ws s = split_acc [] s"

text \<open>\<^verbatim>\<open>s.upper()\<close> on ASCII.\<close>

definition upper_char :: "char \<Rightarrow> char" where
  "upper_char c =
     (case map_of (zip ''abcdefghijklmnopqrstuvwxyz'' ''ABCDEFGHIJKLMNOPQRSTUVWXYZ'') c of
        Some u \<Rightarrow> u
      | None \<Rightarrow> c)"

definition upper :: "string \<Rightarrow> string" where
  "upper s = map upper_char s"

text \<open>
  Reading a text file line by line. Python's universal newlines turn \<^verbatim>\<open>\r\n\<close> and a lone
  \<^verbatim>\<open>\r\<close> into \<^verbatim>\<open>\n\<close>; each line keeps its terminator, and a last line without one is a
  line too.
\<close>

fun universal_newlines :: "string \<Rightarrow> string" where
  "universal_newlines [] = []"
| "universal_newlines [c] = [if c = CHR 0x0D then CHR 0x0A else c]"
| "universal_newlines (c # d # cs) =
     (if c = CHR 0x0D
      then (if d = CHR 0x0A then CHR 0x0A # universal_newlines cs
            else CHR 0x0A # universal_newlines (d # cs))
      else c # universal_newlines (d # cs))"

fun lines_acc :: "string \<Rightarrow> string \<Rightarrow> string list" where
  "lines_acc cur [] = (if cur = [] then [] else [cur])"
| "lines_acc cur (c # cs) =
     (if c = CHR 0x0A then (cur @ [c]) # lines_acc [] cs else lines_acc (cur @ [c]) cs)"

definition file_lines :: "string \<Rightarrow> string list" where
  "file_lines content = lines_acc [] (universal_newlines content)"

text \<open>
  A file system maps a file name to the text of the file. \<^verbatim>\<open>load_watchlist\<close> ends the
  process with \<^verbatim>\<open>sys.exit(1)\<close> when the file is missing or when reading raises; both are
  error values here.
\<close>

type_synonym filesystem = "string \<rightharpoonup> string"

datatype error = FileNotFound | ReadFailed

text \<open>The loop \<^verbatim>\<open>for line in f\<close> of \<^verbatim>\<open>load_watchlist\<close>, started with the tickers read so far.\<close>

fun load_lines :: "string list \<Rightarrow> string list \<Rightarrow> error + string list" where
  "load_lines tickers [] = Inr tickers"
| "load_lines tickers (line # rest) =
     (let line = strip line
      in if line \<noteq> [] \<and> \<not> starts_with line ''#''
         then (case split_ws line of
                 [] \<Rightarrow> Inl ReadFailed
               | word # _ \<Rightarrow> load_lines (tickers @ [upper word]) rest)
         else load_lines tickers rest)"

definition load_watchlist :: "filesystem \<Rightarrow> string \<Rightarrow> error + string list" where
  "load_watchlist fs filename =
     (case fs filename of
        None \<Rightarrow> Inl FileNotFound
      | Some content \<Rightarrow> load_lines [] (file_lines content))"

text \<open>
  \<^verbatim>\<open>save_watchlist\<close> writes two comment lines, an empty line, and one line per ticker.
  \<open>stamp\<close> is the text of \<^verbatim>\<open>pd.Timestamp.now().strftime('%Y-%m-%d %H:%M:%S')\<close>. Opening
  the file for writing is taken to succeed.
\<close>

definition watchlist_text :: "string list \<Rightarrow> string \<Rightarrow> string" where
  "watchlist_text tickers stamp =
     ''# Stock Watchlist'' @ [CHR 0x0A]
     @ ''# Generated on '' @ stamp @ [CHR 0x0A, CHR 0x0A]
     @ concat (map (\<lambda>t. t @ [CHR 0x0A]) tickers)"

definition save_watchlist :: "filesystem \<Rightarrow> string list \<Rightarrow> string \<Rightarrow> string \<Rightarrow> filesystem" where
  "save_watchlist fs tickers filename stamp = fs(filename \<mapsto> watchlist_text tickers stamp)"

subsection \<open>Example analyses\<close>

text \<open>An analysis whose every metric lies in the best band of its rule.\<close>

definition strong_analysis :: StockAnalysis where
  "strong_analysis =
     (new_analysis ''JNJ'' ''Johnson & Johnson'' ''Healthcare'')
       \<lparr> dividend_yield := Some 3, payout_ratio := Some 40, dividend_growth_5yr := Some 12,
         interest_coverage := Some 20, debt_to_equity := Some 0.3, roic := Some 15,
         pe_ratio := Some 12, expected_return := Some 15 \<rparr>"

text \<open>A yield above the ceiling of 8 (a yield trap), with strong dividend and balance-sheet metrics.\<close>

definition yield_trap_analysis :: StockAnalysis where
  "yield_trap_analysis =
     (new_analysis ''TRAP'' ''Yield Trap Inc'' ''Energy'')
       \<lparr> dividend_yield := Some 9, payout_ratio := Some 40, dividend_growth_5yr := Some 12,
         interest_coverage := Some 20, debt_to_equity := Some 0.3 \<rparr>"

text \<open>Four rules score 2 each; the P/E of 30 only raises an informational flag.\<close>

definition pricey_analysis :: StockAnalysis where
  "pricey_analysis =
     (new_analysis ''KO'' ''Coca-Cola'' ''Consumer Defensive'')
       \<lparr> dividend_yield := Some 3, payout_ratio := Some 40, interest_coverage := Some 20,
         roic := Some 15, pe_ratio := Some 30 \<rparr>"

text \<open>A payout ratio of zero, as the provider reports it for a company that pays no dividend.\<close>

definition zero_payout_analysis :: StockAnalysis where
  "zero_payout_analysis =
     (new_analysis ''GOOG'' ''Alphabet'' ''Technology'')
       \<lparr> payout_ratio := Some 0, pe_ratio := Some 20 \<rparr>"

text \<open>A payout ratio of 95 in a sector with the ordinary ceiling of 50.\<close>

definition high_payout_analysis :: StockAnalysis where
  "high_payout_analysis =
     (new_analysis ''T'' ''AT&T'' ''Communication Services'')
       \<lparr> dividend_yield := Some 6, payout_ratio := Some 95 \<rparr>"

text \<open>A payout ratio of 91, to be screened against a ceiling of 95.\<close>

definition payout_91_analysis :: StockAnalysis where
  "payout_91_analysis =
     (new_analysis ''MO'' ''Altria'' ''Consumer Defensive'')
       \<lparr> dividend_yield := Some 6, payout_ratio := Some 91 \<rparr>"

definition lenient_criteria :: ScreeningCriteria where
  "lenient_criteria = default_criteria\<lparr> max_payout_ratio := 95 \<rparr>"

text \<open>Metrics that are present and exactly zero.\<close>

definition zero_metrics_analysis :: StockAnalysis where
  "zero_metrics_analysis =
     (new_analysis ''ZERO'' ''Zero Corp'' ''Industrials'')
       \<lparr> dividend_yield := Some 0, payout_ratio := Some 0, dividend_growth_5yr := Some 0,
         debt_to_equity := Some 0, pe_ratio := Some 12 \<rparr>"

text \<open>An operating loss: EBIT of -100 against an interest expense of 10.\<close>

definition loss_maker :: ProviderData where
  "loss_maker =
     (bare_provider ''Loss Maker'')
       \<lparr> financials := Some [(''EBIT'', [-100, 40]), (''Interest Expense'', [10, 10])] \<rparr>"

text \<open>A return on assets of 10% with no debt, and with a debt/equity of 0.5.\<close>

definition debt_free :: ProviderData where
  "debt_free =
     (bare_provider ''Debt Free'')
       \<lparr> info_debtToEquity := Some 0, info_returnOnAssets := Some 0.1 \<rparr>"

definition half_levered :: ProviderData where
  "half_levered =
     (bare_provider ''Half Levered'')
       \<lparr> info_debtToEquity := Some 50, info_returnOnAssets := Some 0.1 \<rparr>"

text \<open>Zero-valued provider fields.\<close>

definition zero_fields :: ProviderData where
  "zero_fields =
     (bare_provider ''Zero Fields'')
       \<lparr> info_payoutRatio := Some 0, info_debtToEquity := Some 0,
         info_returnOnEquity := Some 0, info_profitMargins := Some 0 \<rparr>"

text \<open>Dividends of 10 a year for four years, then two of 10 in the fifth.\<close>

definition five_years :: ProviderData where
  "five_years =
     (bare_provider ''Five Years'')
       \<lparr> dividends := Some [(2019, 10), (2020, 10), (2021, 10), (2022, 10), (2023, 10), (2023, 10)] \<rparr>"

subsection \<open>Vocabulary of the properties\<close>

text \<open>What a single check adds to the score and to the flags.\<close>

definition delta :: "(tally \<Rightarrow> tally) \<Rightarrow> tally" where
  "delta chk = chk (0, [])"

text \<open>The three outputs of the Rule Evaluator.\<close>

definition verdict :: "StockAnalysis \<Rightarrow> int \<times> string list \<times> bool" where
  "verdict r = (score r, flags r, passes_screen r)"

text \<open>The two flags of the payout rule, recognised by how they begin.\<close>

definition is_payout_flag :: "string \<Rightarrow> bool" where
  "is_payout_flag f = (starts_with f ''High payout ratio'' \<or> starts_with f ''DIVIDEND AT RISK'')"

text \<open>The payout ceiling that applies to the sector of an analysis.\<close>

definition payout_ceiling :: "StockAnalysis \<Rightarrow> ScreeningCriteria \<Rightarrow> real" where
  "payout_ceiling a c =
     (if high_leverage_sector a then max_payout_ratio_reit c else max_payout_ratio c)"

definition without_payout :: "StockAnalysis \<Rightarrow> StockAnalysis" where
  "without_payout a = a\<lparr>payout_ratio := None\<rparr>"

text \<open>
  The payout rule for a payout ratio \<open>p\<close>, stated against the screening of the same analysis
  without a payout ratio: above the ceiling, only the high-payout flag; otherwise above 90,
  only the at-risk flag; otherwise two points and no payout flag. Every other flag is as it
  is without the payout ratio.
\<close>

definition payout_rule :: "StockAnalysis \<Rightarrow> ScreeningCriteria \<Rightarrow> real \<Rightarrow> bool" where
  "payout_rule a c p =
     (let r = screen_stock a c; base = screen_stock (without_payout a) c
      in (if p > payout_ceiling a c
            then score r = score base
               \<and> filter is_payout_flag (flags r)
                    = [''High payout ratio: '' @ format_fixed 1 p @ ''%'']
          else if p > 90
            then score r = score base
               \<and> filter is_payout_flag (flags r)
                    = [''DIVIDEND AT RISK: Payout ratio '' @ format_fixed 1 p @ ''%'']
          else score r = score base + 2 \<and> filter is_payout_flag (flags r) = [])
         \<and> filter (\<lambda>f. \<not> is_payout_flag f) (flags r) = flags base)"

text \<open>An analysis with every metric that is exactly zero made absent.\<close>

definition forget_zeros :: "StockAnalysis \<Rightarrow> StockAnalysis" where
  "forget_zeros a =
     a\<lparr> dividend_yield := truthy (dividend_yield a),
        payout_ratio := truthy (payout_ratio a),
        dividend_growth_5yr := truthy (dividend_growth_5yr a),
        interest_coverage := truthy (interest_coverage a),
        debt_to_equity := truthy (debt_to_equity a),
        roic := truthy (roic a),
        roe := truthy (roe a),
        pe_ratio := truthy (pe_ratio a),
        expected_return := truthy (expected_return a) \<rparr>"

text \<open>
  A ticker that survives a line of a watchlist file: not empty, free of whitespace, and not
  starting with the comment character.
\<close>

definition plain_ticker :: "string \<Rightarrow> bool" where
  "plain_ticker t = (t \<noteq> [] \<and> list_all (\<lambda>c. \<not> is_space c) t \<and> \<not> starts_with t ''#'')"

definition single_line :: "string \<Rightarrow> bool" where
  "single_line s = list_all (\<lambda>c. c \<noteq> CHR 0x0A \<and> c \<noteq> CHR 0x0D) s"

section \<open>Properties of the Rule Evaluator\<close>

lemmas check_defs =
  dividend_yield_check_def payout_ratio_check_def dividend_growth_check_def
  interest_coverage_check_def debt_to_equity_check_def roic_roe_check_def
  valuation_check_def expected_return_check_def

lemmas format_defs =
  format_fixed_def round_half_even_def zero_pad_def str_of_nat.simps digit_char_def

lemmas example_defs =
  strong_analysis_def yield_trap_analysis_def pricey_analysis_def new_analysis_def
  default_criteria_def zero_payout_analysis_def high_payout_analysis_def
  payout_91_analysis_def lenient_criteria_def zero_metrics_analysis_def

lemmas provider_defs =
  bare_provider_def loss_maker_def debt_free_def half_levered_def zero_fields_def
  five_years_def

lemmas eval_defs =
  screen_stock_def run_checks_def check_defs truthy_def truthy_and_def high_leverage_sector_def
  example_defs

subsection \<open>Substring test\<close>

lemma starts_with_iff: "starts_with s p \<longleftrightarrow> (\<exists>t. s = p @ t)"
  by (induction s p rule: starts_with.induct) auto

lemma str_in_iff: "str_in needle hay \<longleftrightarrow> (\<exists>pre post. hay = pre @ needle @ post)"
proof (induction hay)
  case Nil
  then show ?case by auto
next
  case (Cons c cs)
  show ?case
  proof
    assume "str_in needle (c # cs)"
    then consider "starts_with (c # cs) needle" | "str_in needle cs" by auto
    then show "\<exists>pre post. c # cs = pre @ needle @ post"
    proof cases
      case 1
      then obtain t where "c # cs = needle @ t" by (auto simp: starts_with_iff)
      then have "c # cs = [] @ needle @ t" by simp
      then show ?thesis by blast
    next
      case 2
      then obtain pre post where "cs = pre @ needle @ post" using Cons.IH by auto
      then have "c # cs = (c # pre) @ needle @ post" by simp
      then show ?thesis by blast
    qed
  next
    assume "\<exists>pre post. c # cs = pre @ needle @ post"
    then obtain pre post where eq: "c # cs = pre @ needle @ post" by auto
    show "str_in needle (c # cs)"
    proof (cases pre)
      case Nil
      then have "starts_with (c # cs) needle" using eq by (auto simp: starts_with_iff)
      then show ?thesis by simp
    next
      case (Cons d pre')
      then have "cs = pre' @ needle @ post" using eq by simp
      then have "str_in needle cs" using Cons.IH by auto
      then show ?thesis by simp
    qed
  qed
qed

subsection \<open>Each check adds to the tally\<close>

lemma dividend_yield_check_add:
  "dividend_yield_check a c st =
     (fst st + fst (delta (dividend_yield_check a c)),
      snd st @ snd (delta (dividend_yield_check a c)))"
  by (cases st) (simp add: delta_def dividend_yield_check_def split: option.split)

lemma payout_ratio_check_add:
  "payout_ratio_check a c st =
     (fst st + fst (delta (payout_ratio_check a c)),
      snd st @ snd (delta (payout_ratio_check a c)))"
  by (cases st) (simp add: delta_def payout_ratio_check_def split: option.split)

lemma dividend_growth_check_add:
  "dividend_growth_check a c st =
     (fst st + fst (delta (dividend_growth_check a c)),
      snd st @ snd (delta (dividend_growth_check a c)))"
  by (cases st) (simp add: delta_def dividend_growth_check_def split: option.split)

lemma interest_coverage_check_add:
  "interest_coverage_check a c st =
     (fst st + fst (delta (interest_coverage_check a c)),
      snd st @ snd (delta (interest_coverage_check a c)))"
  by (cases st) (simp add: delta_def interest_coverage_check_def split: option.split)

lemma debt_to_equity_check_add:
  "debt_to_equity_check a c st =
     (fst st + fst (delta (debt_to_equity_check a c)),
      snd st @ snd (delta (debt_to_equity_check a c)))"
  by (cases st) (simp add: delta_def debt_to_equity_check_def split: option.split)

lemma roic_roe_check_add:
  "roic_roe_check a c st =
     (fst st + fst (delta (roic_roe_check a c)),
      snd st @ snd (delta (roic_roe_check a c)))"
  by (cases st) (simp add: delta_def roic_roe_check_def split: option.split)

lemma valuation_check_add:
  "valuation_check a c st =
     (fst st + fst (delta (valuation_check a c)),
      snd st @ snd (delta (valuation_check a c)))"
  by (cases st) (simp add: delta_def valuation_check_def split: option.split)

lemma expected_return_check_add:
  "expected_return_check a c st =
     (fst st + fst (delta (expected_return_check a c)),
      snd st @ snd (delta (expected_return_check a c)))"
  by (cases st) (simp add: delta_def expected_return_check_def split: option.split)

lemmas check_add =
  dividend_yield_check_add payout_ratio_check_add dividend_growth_check_add
  interest_coverage_check_add debt_to_equity_check_add roic_roe_check_add
  valuation_check_add expected_return_check_add

lemma run_checks_sum:
  "run_checks a c =
     (fst (delta (dividend_yield_check a c)) + fst (delta (payout_ratio_check a c))
      + fst (delta (dividend_growth_check a c)) + fst (delta (interest_coverage_check a c))
      + fst (delta (debt_to_equity_check a c)) + fst (delta (roic_roe_check a c))
      + fst (delta (valuation_check a c)) + fst (delta (expected_return_check a c)),
      snd (delta (dividend_yield_check a c)) @ snd (delta (payout_ratio_check a c))
      @ snd (delta (dividend_growth_check a c)) @ snd (delta (interest_coverage_check a c))
      @ snd (delta (debt_to_equity_check a c)) @ snd (delta (roic_roe_check a c))
      @ snd (delta (valuation_check a c)) @ snd (delta (expected_return_check a c)))"
  unfolding run_checks_def by (simp add: check_add)

lemma screen_stock_score: "score (screen_stock a c) = fst (run_checks a c)"
  by (simp add: screen_stock_def split: prod.split)

lemma screen_stock_flags: "flags (screen_stock a c) = snd (run_checks a c)"
  by (simp add: screen_stock_def split: prod.split)

lemma screen_stock_passes:
  "passes_screen (screen_stock a c) =
     (fst (run_checks a c) \<ge> 8
      \<and> filter (\<lambda>f. str_in ''WARNING'' f \<or> str_in ''AT RISK'' f) (snd (run_checks a c)) = [])"
  by (simp add: screen_stock_def split: prod.split)

lemma verdict_run_checks:
  "run_checks a c = run_checks b c \<Longrightarrow> verdict (screen_stock a c) = verdict (screen_stock b c)"
  by (simp add: verdict_def screen_stock_score screen_stock_flags screen_stock_passes)

subsection \<open>Pass verdict\<close>

text \<open>
  C1. The pass verdict of \<open>screen_stock\<close> is true exactly when the computed score is at
  least 8 and no computed flag contains \<open>WARNING\<close> or \<open>AT RISK\<close> as a substring. In
  particular, a score of 9 with a flag containing \<open>WARNING\<close> does not pass, and a score of
  8 with no such flag passes.
\<close>

theorem screen_stock_pass_verdict:
  fixes a :: StockAnalysis and c :: ScreeningCriteria
  defines "r \<equiv> screen_stock a c"
  shows "(passes_screen r \<longleftrightarrow>
            score r \<ge> 8 \<and> (\<forall>f \<in> set (flags r). \<not> str_in ''WARNING'' f \<and> \<not> str_in ''AT RISK'' f))
         \<and> (score r = 9 \<and> (\<exists>f \<in> set (flags r). str_in ''WARNING'' f) \<longrightarrow> \<not> passes_screen r)
         \<and> (score r = 8 \<and> (\<forall>f \<in> set (flags r). \<not> str_in ''WARNING'' f \<and> \<not> str_in ''AT RISK'' f)
              \<longrightarrow> passes_screen r)"
proof -
  obtain s fs where rc: "run_checks a c = (s, fs)" by (cases "run_checks a c")
  have "passes_screen r \<longleftrightarrow>
          score r \<ge> 8 \<and> (\<forall>f \<in> set (flags r). \<not> str_in ''WARNING'' f \<and> \<not> str_in ''AT RISK'' f)"
    unfolding r_def screen_stock_def by (simp add: rc filter_empty_conv)
  then show ?thesis by auto
qed

theorem screen_stock_pass_verdict_witness:
  "score (screen_stock yield_trap_analysis default_criteria) = 9
   \<and> flags (screen_stock yield_trap_analysis default_criteria)
       = [''YIELD TRAP WARNING: 9.00% (unusually high)'']
   \<and> \<not> passes_screen (screen_stock yield_trap_analysis default_criteria)
   \<and> score (screen_stock pricey_analysis default_criteria) = 8
   \<and> flags (screen_stock pricey_analysis default_criteria) = [''High P/E ratio: 30.0'']
   \<and> passes_screen (screen_stock pricey_analysis default_criteria)"
proof -
  have s9: "score (screen_stock yield_trap_analysis default_criteria) = 9"
    by (simp add: screen_stock_def run_checks_def check_defs truthy_def truthy_and_def
        high_leverage_sector_def example_defs)
  have f9: "flags (screen_stock yield_trap_analysis default_criteria)
              = [''YIELD TRAP WARNING: 9.00% (unusually high)'']"
    by (simp add: screen_stock_def run_checks_def check_defs truthy_def truthy_and_def
        high_leverage_sector_def example_defs format_defs)
  have s8: "score (screen_stock pricey_analysis default_criteria) = 8"
    by (simp add: screen_stock_def run_checks_def check_defs truthy_def truthy_and_def
        high_leverage_sector_def example_defs)
  have f8: "flags (screen_stock pricey_analysis default_criteria) = [''High P/E ratio: 30.0'']"
    by (simp add: screen_stock_def run_checks_def check_defs truthy_def truthy_and_def
        high_leverage_sector_def example_defs format_defs)
  have "\<not> passes_screen (screen_stock yield_trap_analysis default_criteria)"
    using screen_stock_pass_verdict [of yield_trap_analysis default_criteria] s9 f9 by simp
  moreover have "passes_screen (screen_stock pricey_analysis default_criteria)"
    using screen_stock_pass_verdict [of pricey_analysis default_criteria] s8 f8 by simp
  ultimately show ?thesis using s9 f9 s8 f8 by simp
qed

subsection \<open>Payout rule\<close>

lemma no_payout_flags:
  "filter is_payout_flag (snd (delta (dividend_yield_check a c))) = []"
  "filter is_payout_flag (snd (delta (dividend_growth_check a c))) = []"
  "filter is_payout_flag (snd (delta (interest_coverage_check a c))) = []"
  "filter is_payout_flag (snd (delta (debt_to_equity_check a c))) = []"
  "filter is_payout_flag (snd (delta (roic_roe_check a c))) = []"
  "filter is_payout_flag (snd (delta (valuation_check a c))) = []"
  "filter is_payout_flag (snd (delta (expected_return_check a c))) = []"
  by (simp_all add: delta_def check_defs is_payout_flag_def split: option.split)

lemma not_payout_flags:
  "filter (\<lambda>f. \<not> is_payout_flag f) (snd (delta (dividend_yield_check a c)))
     = snd (delta (dividend_yield_check a c))"
  "filter (\<lambda>f. \<not> is_payout_flag f) (snd (delta (dividend_growth_check a c)))
     = snd (delta (dividend_growth_check a c))"
  "filter (\<lambda>f. \<not> is_payout_flag f) (snd (delta (interest_coverage_check a c)))
     = snd (delta (interest_coverage_check a c))"
  "filter (\<lambda>f. \<not> is_payout_flag f) (snd (delta (debt_to_equity_check a c)))
     = snd (delta (debt_to_equity_check a c))"
  "filter (\<lambda>f. \<not> is_payout_flag f) (snd (delta (roic_roe_check a c)))
     = snd (delta (roic_roe_check a c))"
  "filter (\<lambda>f. \<not> is_payout_flag f) (snd (delta (valuation_check a c)))
     = snd (delta (valuation_check a c))"
  "filter (\<lambda>f. \<not> is_payout_flag f) (snd (delta (expected_return_check a c)))
     = snd (delta (expected_return_check a c))"
  by (simp_all add: delta_def check_defs is_payout_flag_def split: option.split)

lemma other_checks_ignore_payout:
  "dividend_yield_check (a\<lparr>payout_ratio := x\<rparr>) c = dividend_yield_check a c"
  "dividend_growth_check (a\<lparr>payout_ratio := x\<rparr>) c = dividend_growth_check a c"
  "interest_coverage_check (a\<lparr>payout_ratio := x\<rparr>) c = interest_coverage_check a c"
  "debt_to_equity_check (a\<lparr>payout_ratio := x\<rparr>) c = debt_to_equity_check a c"
  "roic_roe_check (a\<lparr>payout_ratio := x\<rparr>) c = roic_roe_check a c"
  "valuation_check (a\<lparr>payout_ratio := x\<rparr>) c = valuation_check a c"
  "expected_return_check (a\<lparr>payout_ratio := x\<rparr>) c = expected_return_check a c"
  by (simp_all add: fun_eq_iff check_defs high_leverage_sector_def split: option.split)

lemma payout_delta_absent: "delta (payout_ratio_check (a\<lparr>payout_ratio := None\<rparr>) c) = (0, [])"
  by (simp add: delta_def payout_ratio_check_def truthy_def)

lemma payout_delta_present:
  assumes "payout_ratio a = Some p" and "p \<noteq> 0"
  shows "delta (payout_ratio_check a c) =
           (if p > payout_ceiling a c
              then (0, [''High payout ratio: '' @ format_fixed 1 p @ ''%''])
            else if p > 90
              then (0, [''DIVIDEND AT RISK: Payout ratio '' @ format_fixed 1 p @ ''%''])
            else (2, []))"
  using assms by (simp add: delta_def payout_ratio_check_def truthy_def payout_ceiling_def)

lemma payout_flags_are_payout_flags:
  "is_payout_flag (''High payout ratio: '' @ x)"
  "is_payout_flag (''DIVIDEND AT RISK: Payout ratio '' @ x)"
  by (simp_all add: is_payout_flag_def)

text \<open>
  C2 (as amended). For an analysis whose payout ratio is present and not zero, the ceiling
  check and the check against 90 are exclusive branches with the ceiling first: above the
  sector's ceiling only the high-payout flag is raised, also when the ratio is above 90;
  not above the ceiling but above 90, only the at-risk flag; otherwise the score gains 2
  and no payout flag is raised. A payout ratio of exactly zero is skipped like an absent
  one, so the claim does not hold for every present payout ratio.
\<close>

theorem payout_rule_nonzero:
  assumes "payout_ratio a = Some p" and "p \<noteq> 0"
  shows "payout_rule a c p"
proof -
  have hp: "is_payout_flag (''High payout ratio: '' @ format_fixed 1 p @ ''%'')"
    and ap: "is_payout_flag (''DIVIDEND AT RISK: Payout ratio '' @ format_fixed 1 p @ ''%'')"
    by (rule payout_flags_are_payout_flags)+
  show ?thesis
    unfolding payout_rule_def Let_def without_payout_def
    using hp ap
    by (simp add: screen_stock_score screen_stock_flags run_checks_sum other_checks_ignore_payout
        payout_delta_absent payout_delta_present [OF assms] no_payout_flags not_payout_flags)
qed

theorem payout_rule_nonzero_witness:
  "payout_ratio high_payout_analysis = Some 95
   \<and> payout_rule high_payout_analysis default_criteria 95
   \<and> payout_ceiling high_payout_analysis default_criteria = 50
   \<and> filter is_payout_flag (flags (screen_stock high_payout_analysis default_criteria))
       = [''High payout ratio: 95.0%'']
   \<and> payout_ratio payout_91_analysis = Some 91
   \<and> payout_rule payout_91_analysis lenient_criteria 91
   \<and> payout_ceiling payout_91_analysis lenient_criteria = 95
   \<and> filter is_payout_flag (flags (screen_stock payout_91_analysis lenient_criteria))
       = [''DIVIDEND AT RISK: Payout ratio 91.0%'']
   \<and> payout_ratio strong_analysis = Some 40
   \<and> payout_rule strong_analysis default_criteria 40
   \<and> score (screen_stock strong_analysis default_criteria)
       = score (screen_stock (without_payout strong_analysis) default_criteria) + 2"
proof -
  have p95: "payout_ratio high_payout_analysis = Some 95"
    and p91: "payout_ratio payout_91_analysis = Some 91"
    and p40: "payout_ratio strong_analysis = Some 40"
    by (simp_all add: example_defs)
  have c50: "payout_ceiling high_payout_analysis default_criteria = 50"
    and c95: "payout_ceiling payout_91_analysis lenient_criteria = 95"
    and c40: "payout_ceiling strong_analysis default_criteria = 50"
    by (simp_all add: payout_ceiling_def high_leverage_sector_def example_defs)
  have f95: "format_fixed (Suc 0) 95 = ''95.0''" and f91: "format_fixed (Suc 0) 91 = ''91.0''"
    by (simp_all add: format_defs)
  have r95: "payout_rule high_payout_analysis default_criteria 95"
    by (rule payout_rule_nonzero [OF p95]) simp
  have r91: "payout_rule payout_91_analysis lenient_criteria 91"
    by (rule payout_rule_nonzero [OF p91]) simp
  have r40: "payout_rule strong_analysis default_criteria 40"
    by (rule payout_rule_nonzero [OF p40]) simp
  have "filter is_payout_flag (flags (screen_stock high_payout_analysis default_criteria))
          = [''High payout ratio: 95.0%'']"
    using r95 by (simp add: payout_rule_def Let_def c50 f95)
  moreover have "filter is_payout_flag (flags (screen_stock payout_91_analysis lenient_criteria))
          = [''DIVIDEND AT RISK: Payout ratio 91.0%'']"
    using r91 by (simp add: payout_rule_def Let_def c95 f91)
  moreover have "score (screen_stock strong_analysis default_criteria)
       = score (screen_stock (without_payout strong_analysis) default_criteria) + 2"
    using r40 by (simp add: payout_rule_def Let_def c40)
  ultimately show ?thesis using p95 p91 p40 c50 c95 r95 r91 r40 by simp
qed

theorem payout_rule_zero_counterexample:
  "payout_ratio zero_payout_analysis = Some 0
   \<and> \<not> 0 > payout_ceiling zero_payout_analysis default_criteria
   \<and> \<not> (0 :: real) > 90
   \<and> score (screen_stock zero_payout_analysis default_criteria) = 1
   \<and> score (screen_stock (without_payout zero_payout_analysis) default_criteria) = 1
   \<and> \<not> payout_rule zero_payout_analysis default_criteria 0"
proof -
  have s: "score (screen_stock zero_payout_analysis default_criteria) = 1"
    and b: "score (screen_stock (without_payout zero_payout_analysis) default_criteria) = 1"
    by (simp_all add: eval_defs without_payout_def)
  have c: "payout_ceiling zero_payout_analysis default_criteria = 50"
    by (simp add: payout_ceiling_def high_leverage_sector_def example_defs)
  have "\<not> payout_rule zero_payout_analysis default_criteria 0"
    by (simp add: payout_rule_def Let_def c s b)
  then show ?thesis using s b c by (simp add: example_defs)
qed

subsection \<open>No data at all\<close>

text \<open>
  C3. When dividend yield, payout ratio, dividend growth, interest coverage, debt/equity,
  ROIC, ROE, P/E and expected return are all absent, \<open>screen_stock\<close> gives score 0, a
  failing verdict, and a flag list that includes \<open>No dividend data\<close>.
\<close>

theorem screen_stock_all_absent:
  assumes "dividend_yield a = None" and "payout_ratio a = None"
    and "dividend_growth_5yr a = None" and "interest_coverage a = None"
    and "debt_to_equity a = None" and "roic a = None" and "roe a = None"
    and "pe_ratio a = None" and "expected_return a = None"
  shows "score (screen_stock a c) = 0
         \<and> \<not> passes_screen (screen_stock a c)
         \<and> ''No dividend data'' \<in> set (flags (screen_stock a c))"
proof -
  have "run_checks a c = (0, [''No dividend data''])"
    using assms by (simp add: run_checks_def check_defs truthy_def truthy_and_def)
  then show ?thesis by (simp add: screen_stock_def)
qed

theorem screen_stock_all_absent_witness:
  "score (screen_stock (new_analysis ''XYZ'' ''Unknown Corp'' ''Unknown'') default_criteria) = 0
   \<and> \<not> passes_screen (screen_stock (new_analysis ''XYZ'' ''Unknown Corp'' ''Unknown'') default_criteria)
   \<and> ''No dividend data''
       \<in> set (flags (screen_stock (new_analysis ''XYZ'' ''Unknown Corp'' ''Unknown'') default_criteria))"
  using screen_stock_all_absent
    [of "new_analysis ''XYZ'' ''Unknown Corp'' ''Unknown''" default_criteria]
  by (simp add: new_analysis_def)

subsection \<open>Range of the score\<close>

lemma delta_ranges:
  "0 \<le> fst (delta (dividend_yield_check a c))" "fst (delta (dividend_yield_check a c)) \<le> 2"
  "0 \<le> fst (delta (payout_ratio_check a c))" "fst (delta (payout_ratio_check a c)) \<le> 2"
  "0 \<le> fst (delta (dividend_growth_check a c))" "fst (delta (dividend_growth_check a c)) \<le> 3"
  "0 \<le> fst (delta (interest_coverage_check a c))" "fst (delta (interest_coverage_check a c)) \<le> 2"
  "0 \<le> fst (delta (debt_to_equity_check a c))" "fst (delta (debt_to_equity_check a c)) \<le> 2"
  "0 \<le> fst (delta (roic_roe_check a c))" "fst (delta (roic_roe_check a c)) \<le> 2"
  "0 \<le> fst (delta (valuation_check a c))" "fst (delta (valuation_check a c)) \<le> 2"
  "0 \<le> fst (delta (expected_return_check a c))" "fst (delta (expected_return_check a c)) \<le> 2"
  by (simp_all add: delta_def check_defs split: option.split)

text \<open>
  C7 (as amended). The score is a nonnegative integer that never exceeds 17, the sum of
  what the eight rules can add (2 + 2 + 3 + 2 + 2 + 2 + 2 + 2). The bound of 15 fails: an
  analysis whose metrics are all in the best band scores 17.
\<close>

theorem screen_stock_score_range:
  "0 \<le> score (screen_stock a c) \<and> score (screen_stock a c) \<le> 17"
  using delta_ranges [of a c] by (simp add: screen_stock_score run_checks_sum)

theorem screen_stock_score_above_15:
  "score (screen_stock strong_analysis default_criteria) = 17
   \<and> \<not> score (screen_stock strong_analysis default_criteria) \<le> 15"
  by (simp add: screen_stock_def run_checks_def check_defs truthy_def truthy_and_def
      high_leverage_sector_def example_defs)

subsection \<open>Zero is absent\<close>

lemma truthy_truthy: "truthy (truthy x) = truthy x"
  by (simp add: truthy_def split: option.split)

lemma truthy_zero: "truthy (Some 0) = None"
  by (simp add: truthy_def)

lemma truthy_None: "truthy None = None"
  by (simp add: truthy_def)

lemma high_leverage_forget_zeros: "high_leverage_sector (forget_zeros a) = high_leverage_sector a"
  by (simp add: high_leverage_sector_def forget_zeros_def)

lemma checks_forget_zeros:
  "dividend_yield_check (forget_zeros a) c = dividend_yield_check a c"
  "payout_ratio_check (forget_zeros a) c = payout_ratio_check a c"
  "dividend_growth_check (forget_zeros a) c = dividend_growth_check a c"
  "interest_coverage_check (forget_zeros a) c = interest_coverage_check a c"
  "debt_to_equity_check (forget_zeros a) c = debt_to_equity_check a c"
  "roic_roe_check (forget_zeros a) c = roic_roe_check a c"
  "valuation_check (forget_zeros a) c = valuation_check a c"
  "expected_return_check (forget_zeros a) c = expected_return_check a c"
  by (simp_all add: fun_eq_iff check_defs truthy_and_def high_leverage_forget_zeros truthy_truthy
      cong: option.case_cong)
     (simp_all add: forget_zeros_def truthy_truthy)

lemma run_checks_forget_zeros: "run_checks (forget_zeros a) c = run_checks a c"
  by (simp add: run_checks_def checks_forget_zeros)


lemma forget_zeros_cases:
  "forget_zeros (a\<lparr>dividend_yield := Some 0\<rparr>) = forget_zeros (a\<lparr>dividend_yield := None\<rparr>)"
  "forget_zeros (a\<lparr>payout_ratio := Some 0\<rparr>) = forget_zeros (a\<lparr>payout_ratio := None\<rparr>)"
  "forget_zeros (a\<lparr>dividend_growth_5yr := Some 0\<rparr>) = forget_zeros (a\<lparr>dividend_growth_5yr := None\<rparr>)"
  "forget_zeros (a\<lparr>interest_coverage := Some 0\<rparr>) = forget_zeros (a\<lparr>interest_coverage := None\<rparr>)"
  "forget_zeros (a\<lparr>debt_to_equity := Some 0\<rparr>) = forget_zeros (a\<lparr>debt_to_equity := None\<rparr>)"
  "forget_zeros (a\<lparr>roic := Some 0\<rparr>) = forget_zeros (a\<lparr>roic := None\<rparr>)"
  "forget_zeros (a\<lparr>roe := Some 0\<rparr>) = forget_zeros (a\<lparr>roe := None\<rparr>)"
  "forget_zeros (a\<lparr>pe_ratio := Some 0\<rparr>) = forget_zeros (a\<lparr>pe_ratio := None\<rparr>)"
  "forget_zeros (a\<lparr>expected_return := Some 0\<rparr>) = forget_zeros (a\<lparr>expected_return := None\<rparr>)"
  by (simp_all add: forget_zeros_def truthy_zero truthy_None)

lemma verdict_same_forget_zeros:
  assumes "forget_zeros a = forget_zeros b"
  shows "verdict (screen_stock a c) = verdict (screen_stock b c)"
proof -
  have "run_checks a c = run_checks (forget_zeros a) c" by (simp add: run_checks_forget_zeros)
  also have "\<dots> = run_checks (forget_zeros b) c" by (simp add: assms)
  also have "\<dots> = run_checks b c" by (simp add: run_checks_forget_zeros)
  finally show ?thesis by (rule verdict_run_checks)
qed

lemma percent_if_truthy_zero: "percent_if_truthy (Some 0) = Some 0"
  by (simp add: percent_if_truthy_def truthy_def)

lemma ratio_if_truthy_zero: "ratio_if_truthy (Some 0) = Some 0"
  by (simp add: ratio_if_truthy_def truthy_def)

lemma get_stock_data_fields:
  assumes "get_stock_data t stock = Some d"
  shows "dividend_yield d = info_dividendYield stock"
    and "payout_ratio d = percent_if_truthy (info_payoutRatio stock)"
    and "dividend_growth_5yr d = dividend_growth (dividends stock)"
    and "debt_to_equity d = ratio_if_truthy (info_debtToEquity stock)"
    and "interest_coverage d = interest_coverage_of (financials stock)"
    and "roe d = percent_if_truthy (info_returnOnEquity stock)"
    and "roic d = roic_estimate (info_returnOnAssets stock) (ratio_if_truthy (info_debtToEquity stock))"
    and "profit_margin d = percent_if_truthy (info_profitMargins stock)"
    and "expected_return d = expected_return_of (info_dividendYield stock)
           (dividend_growth (dividends stock)) (info_earningsGrowth stock)"
  using assms
  by (auto simp: get_stock_data_def Let_def new_analysis_def split: option.splits)

lemma get_stock_data_returns:
  "info_shortName stock = Some n \<Longrightarrow> \<exists>d. get_stock_data t stock = Some d"
  by (simp add: get_stock_data_def Let_def)

text \<open>
  C8. A metric that is present and exactly zero is screened as if it were absent: score,
  flags and verdict are those of the analysis with the zero metrics removed, and of the
  analysis with any one zero metric removed. A zero dividend yield gives the flag
  \<open>No dividend data\<close> and no low-yield flag; a zero payout ratio and a zero debt/equity add
  nothing. The Metric Deriver passes a zero payout ratio, debt/equity, return on equity
  and profit margin through without converting them.
\<close>

theorem zero_metric_as_absent:
  "verdict (screen_stock a c) = verdict (screen_stock (forget_zeros a) c)
   \<and> verdict (screen_stock (a\<lparr>dividend_yield := Some 0\<rparr>) c)
       = verdict (screen_stock (a\<lparr>dividend_yield := None\<rparr>) c)
   \<and> verdict (screen_stock (a\<lparr>payout_ratio := Some 0\<rparr>) c)
       = verdict (screen_stock (a\<lparr>payout_ratio := None\<rparr>) c)
   \<and> verdict (screen_stock (a\<lparr>dividend_growth_5yr := Some 0\<rparr>) c)
       = verdict (screen_stock (a\<lparr>dividend_growth_5yr := None\<rparr>) c)
   \<and> verdict (screen_stock (a\<lparr>interest_coverage := Some 0\<rparr>) c)
       = verdict (screen_stock (a\<lparr>interest_coverage := None\<rparr>) c)
   \<and> verdict (screen_stock (a\<lparr>debt_to_equity := Some 0\<rparr>) c)
       = verdict (screen_stock (a\<lparr>debt_to_equity := None\<rparr>) c)
   \<and> verdict (screen_stock (a\<lparr>roic := Some 0\<rparr>) c)
       = verdict (screen_stock (a\<lparr>roic := None\<rparr>) c)
   \<and> verdict (screen_stock (a\<lparr>roe := Some 0\<rparr>) c)
       = verdict (screen_stock (a\<lparr>roe := None\<rparr>) c)
   \<and> verdict (screen_stock (a\<lparr>pe_ratio := Some 0\<rparr>) c)
       = verdict (screen_stock (a\<lparr>pe_ratio := None\<rparr>) c)
   \<and> verdict (screen_stock (a\<lparr>expected_return := Some 0\<rparr>) c)
       = verdict (screen_stock (a\<lparr>expected_return := None\<rparr>) c)
   \<and> (dividend_yield a = Some 0 \<longrightarrow>
         ''No dividend data'' \<in> set (flags (screen_stock a c))
         \<and> (\<forall>f \<in> set (flags (screen_stock a c)). \<not> starts_with f ''Low dividend yield''))
   \<and> (payout_ratio a = Some 0 \<longrightarrow> delta (payout_ratio_check a c) = (0, []))
   \<and> (debt_to_equity a = Some 0 \<longrightarrow> delta (debt_to_equity_check a c) = (0, []))
   \<and> (\<forall>d. get_stock_data t stock = Some d \<longrightarrow>
         (info_payoutRatio stock = Some 0 \<longrightarrow> payout_ratio d = Some 0)
         \<and> (info_debtToEquity stock = Some 0 \<longrightarrow> debt_to_equity d = Some 0)
         \<and> (info_returnOnEquity stock = Some 0 \<longrightarrow> roe d = Some 0)
         \<and> (info_profitMargins stock = Some 0 \<longrightarrow> profit_margin d = Some 0))"
proof -
  have all: "verdict (screen_stock a c) = verdict (screen_stock (forget_zeros a) c)"
    by (rule verdict_run_checks) (simp add: run_checks_forget_zeros)
  have yield0: "''No dividend data'' \<in> set (flags (screen_stock a c))
        \<and> (\<forall>f \<in> set (flags (screen_stock a c)). \<not> starts_with f ''Low dividend yield'')"
    if "dividend_yield a = Some 0"
  proof -
    have "delta (dividend_yield_check a c) = (0, [''No dividend data''])"
      using that by (simp add: delta_def dividend_yield_check_def truthy_def)
    moreover have
      "\<forall>f \<in> set (snd (delta (payout_ratio_check a c))). \<not> starts_with f ''Low dividend yield''"
      "\<forall>f \<in> set (snd (delta (dividend_growth_check a c))). \<not> starts_with f ''Low dividend yield''"
      "\<forall>f \<in> set (snd (delta (interest_coverage_check a c))). \<not> starts_with f ''Low dividend yield''"
      "\<forall>f \<in> set (snd (delta (debt_to_equity_check a c))). \<not> starts_with f ''Low dividend yield''"
      "\<forall>f \<in> set (snd (delta (roic_roe_check a c))). \<not> starts_with f ''Low dividend yield''"
      "\<forall>f \<in> set (snd (delta (valuation_check a c))). \<not> starts_with f ''Low dividend yield''"
      "\<forall>f \<in> set (snd (delta (expected_return_check a c))). \<not> starts_with f ''Low dividend yield''"
      by (simp_all add: delta_def check_defs split: option.split)
    ultimately show ?thesis
      by (simp add: screen_stock_flags run_checks_sum ball_Un)
  qed
  have payout0: "delta (payout_ratio_check a c) = (0, [])" if "payout_ratio a = Some 0"
    using that by (simp add: delta_def payout_ratio_check_def truthy_def)
  have de0: "delta (debt_to_equity_check a c) = (0, [])" if "debt_to_equity a = Some 0"
    using that by (simp add: delta_def debt_to_equity_check_def truthy_def)
  have deriver: "(info_payoutRatio stock = Some 0 \<longrightarrow> payout_ratio d = Some 0)
         \<and> (info_debtToEquity stock = Some 0 \<longrightarrow> debt_to_equity d = Some 0)
         \<and> (info_returnOnEquity stock = Some 0 \<longrightarrow> roe d = Some 0)
         \<and> (info_profitMargins stock = Some 0 \<longrightarrow> profit_margin d = Some 0)"
    if "get_stock_data t stock = Some d" for d
    using get_stock_data_fields [OF that]
    by (simp add: percent_if_truthy_zero ratio_if_truthy_zero)
  note fields = forget_zeros_cases [THEN verdict_same_forget_zeros]
  show ?thesis
  proof (intro conjI impI allI)
  qed (rule all fields | use yield0 payout0 de0 deriver in blast)+
qed


theorem zero_metric_as_absent_witness:
  "dividend_yield zero_metrics_analysis = Some 0
   \<and> payout_ratio zero_metrics_analysis = Some 0
   \<and> debt_to_equity zero_metrics_analysis = Some 0
   \<and> verdict (screen_stock zero_metrics_analysis default_criteria)
       = verdict (screen_stock (forget_zeros zero_metrics_analysis) default_criteria)
   \<and> ''No dividend data'' \<in> set (flags (screen_stock zero_metrics_analysis default_criteria))
   \<and> flags (screen_stock zero_metrics_analysis default_criteria) = [''No dividend data'']
   \<and> score (screen_stock zero_metrics_analysis default_criteria) = 2
   \<and> delta (payout_ratio_check zero_metrics_analysis default_criteria) = (0, [])
   \<and> delta (debt_to_equity_check zero_metrics_analysis default_criteria) = (0, [])
   \<and> map_option payout_ratio (get_stock_data ''ZERO'' zero_fields) = Some (Some 0)
   \<and> map_option debt_to_equity (get_stock_data ''ZERO'' zero_fields) = Some (Some 0)
   \<and> map_option roe (get_stock_data ''ZERO'' zero_fields) = Some (Some 0)
   \<and> map_option profit_margin (get_stock_data ''ZERO'' zero_fields) = Some (Some 0)"
proof -
  have fields: "dividend_yield zero_metrics_analysis = Some 0"
    "payout_ratio zero_metrics_analysis = Some 0"
    "debt_to_equity zero_metrics_analysis = Some 0"
    by (simp_all add: example_defs)
  have inputs: "info_payoutRatio zero_fields = Some 0" "info_debtToEquity zero_fields = Some 0"
    "info_returnOnEquity zero_fields = Some 0" "info_profitMargins zero_fields = Some 0"
    by (simp_all add: provider_defs)
  obtain d where d: "get_stock_data ''ZERO'' zero_fields = Some d"
    by (auto simp: get_stock_data_def Let_def provider_defs)
  have fl: "flags (screen_stock zero_metrics_analysis default_criteria) = [''No dividend data'']"
    by (simp add: screen_stock_def run_checks_def check_defs truthy_def truthy_and_def
        high_leverage_sector_def example_defs)
  have sc: "score (screen_stock zero_metrics_analysis default_criteria) = 2"
    by (simp add: screen_stock_def run_checks_def check_defs truthy_def truthy_and_def
        high_leverage_sector_def example_defs)
  show ?thesis
    using zero_metric_as_absent [of zero_metrics_analysis default_criteria "''ZERO''" zero_fields]
      fields inputs d fl sc
    by simp
qed

subsection \<open>Frame\<close>

text \<open>
  C9. \<open>screen_stock\<close> changes only the score, the flags and the pass verdict: ticker, name,
  sector and every metric field of the analysis are returned as they were given.
\<close>

theorem screen_stock_frame:
  "ticker (screen_stock a c) = ticker a
   \<and> name (screen_stock a c) = name a
   \<and> sector (screen_stock a c) = sector a
   \<and> dividend_yield (screen_stock a c) = dividend_yield a
   \<and> payout_ratio (screen_stock a c) = payout_ratio a
   \<and> dividend_growth_5yr (screen_stock a c) = dividend_growth_5yr a
   \<and> interest_coverage (screen_stock a c) = interest_coverage a
   \<and> debt_to_equity (screen_stock a c) = debt_to_equity a
   \<and> current_ratio (screen_stock a c) = current_ratio a
   \<and> roic (screen_stock a c) = roic a
   \<and> roe (screen_stock a c) = roe a
   \<and> profit_margin (screen_stock a c) = profit_margin a
   \<and> pe_ratio (screen_stock a c) = pe_ratio a
   \<and> forward_pe (screen_stock a c) = forward_pe a
   \<and> price_to_book (screen_stock a c) = price_to_book a
   \<and> expected_return (screen_stock a c) = expected_return a
   \<and> screen_stock a c
       = a\<lparr> score := score (screen_stock a c), flags := flags (screen_stock a c),
            passes_screen := passes_screen (screen_stock a c) \<rparr>"
  by (cases "run_checks a c") (simp add: screen_stock_def)

section \<open>Properties of the Metric Deriver\<close>

subsection \<open>Interest coverage\<close>

lemma interest_coverage_of_absent:
  "interest_coverage_of None = None"
  "df_empty df \<Longrightarrow> interest_coverage_of (Some df) = None"
  "filter (\<lambda>row. fst row = ''EBIT'') df = [] \<Longrightarrow> interest_coverage_of (Some df) = None"
  "filter (\<lambda>row. fst row = ''Interest Expense'') df = [] \<Longrightarrow> interest_coverage_of (Some df) = None"
  by (auto simp: interest_coverage_of_def loc_iloc0_def truth_def
      split: option.splits list.splits cell.splits bool.splits)

lemma interest_coverage_of_duplicated:
  "filter (\<lambda>row. fst row = ''EBIT'') df = r1 # r2 # rs \<Longrightarrow> interest_coverage_of (Some df) = None"
  "filter (\<lambda>row. fst row = ''Interest Expense'') df = r1 # r2 # rs
     \<Longrightarrow> interest_coverage_of (Some df) = None"
  by (auto simp: interest_coverage_of_def loc_iloc0_def truth_def
      split: option.splits list.splits cell.splits bool.splits)

lemma interest_coverage_of_present:
  assumes "\<not> df_empty df"
    and "filter (\<lambda>row. fst row = ''EBIT'') df = [(''EBIT'', e # es)]"
    and "filter (\<lambda>row. fst row = ''Interest Expense'') df = [(''Interest Expense'', i # ir)]"
  shows "interest_coverage_of (Some df) = (if e = 0 \<or> i = 0 then None else Some \<bar>e / i\<bar>)"
  using assms
  by (cases "e = 0"; cases "i = 0")
     (simp_all add: interest_coverage_of_def loc_iloc0_def truth_def)

text \<open>
  C4. Interest coverage is EBIT divided by the absolute value of Interest Expense, from the
  most recent period, so that an EBIT of -100 against an interest expense of 10 gives -10.
  The source takes the absolute value of the whole quotient, under its comment
  \<^verbatim>\<open>Calculate interest coverage (EBIT / Interest Expense)\<close>: for these statements it derives
  a coverage of 10, and the Rule Evaluator then adds 2 for the coverage and raises no
  low-coverage flag.
\<close>

theorem interest_coverage_negative_ebit:
  "map_option interest_coverage (get_stock_data ''LOSS'' loss_maker) = Some (Some 10)
   \<and> (Some 10 :: real option) \<noteq> Some (- 100 / \<bar>10\<bar>)
   \<and> map_option (\<lambda>d. score (screen_stock d default_criteria))
         (get_stock_data ''LOSS'' loss_maker) = Some 2
   \<and> map_option (\<lambda>d. flags (screen_stock d default_criteria))
         (get_stock_data ''LOSS'' loss_maker) = Some [''No dividend data'']"
proof -
  have cov: "interest_coverage_of (financials loss_maker) = Some 10"
    by (simp add: provider_defs interest_coverage_of_def df_empty_def loc_iloc0_def truth_def)
  have d: "get_stock_data ''LOSS'' loss_maker
             = Some ((new_analysis ''LOSS'' ''Loss Maker'' ''Unknown'')
                       \<lparr>interest_coverage := Some 10\<rparr>)"
    unfolding get_stock_data_def Let_def cov
    by (simp add: provider_defs new_analysis_def dividend_growth_def percent_if_truthy_def
        ratio_if_truthy_def roic_estimate_def expected_return_of_def truthy_def)
  show ?thesis
    unfolding d
    by (simp add: screen_stock_def run_checks_def check_defs truthy_def truthy_and_def
        high_leverage_sector_def new_analysis_def default_criteria_def)
qed

subsection \<open>ROIC\<close>

text \<open>
  C5 (as amended). With a return on assets \<open>roa\<close>, the derived ROIC is
  \<open>roa * 100 * (1 + de) * 0.8\<close> when the derived debt/equity \<open>de\<close> is present and not zero,
  and \<open>roa * 100\<close> when it is absent or exactly zero. For a return on assets of 10% and a
  debt/equity of 0.5 that is 12. A debt/equity that is known to be zero does not bring in
  the factor 0.8.
\<close>

theorem roic_derived:
  assumes "get_stock_data t stock = Some d" and "info_returnOnAssets stock = Some roa"
  shows "roic d = (case truthy (debt_to_equity d) of
                     Some de \<Rightarrow> Some (roa * 100 * (1 + de) * 0.8)
                   | None \<Rightarrow> Some (roa * 100))"
  using get_stock_data_fields(4,7) [OF assms(1)] assms(2)
  by (simp add: roic_estimate_def truthy_def split: option.split)

theorem roic_derived_witness:
  "map_option debt_to_equity (get_stock_data ''HALF'' half_levered) = Some (Some 0.5)
   \<and> map_option roic (get_stock_data ''HALF'' half_levered) = Some (Some 12)"
proof -
  obtain d where d: "get_stock_data ''HALF'' half_levered = Some d"
    by (auto simp: get_stock_data_def Let_def provider_defs)
  have de: "debt_to_equity d = Some 0.5"
    using get_stock_data_fields(4) [OF d]
    by (simp add: provider_defs ratio_if_truthy_def truthy_def)
  have "roic d = Some 12"
    using roic_derived [OF d, of "0.1"] by (simp add: provider_defs de truthy_def)
  then show ?thesis using de by (simp add: d)
qed

theorem roic_zero_debt_counterexample:
  "map_option debt_to_equity (get_stock_data ''FREE'' debt_free) = Some (Some 0)
   \<and> map_option roic (get_stock_data ''FREE'' debt_free) = Some (Some 10)
   \<and> (Some 10 :: real option) \<noteq> Some (0.1 * 100 * (1 + 0) * 0.8)"
  by (simp add: get_stock_data_def Let_def provider_defs roic_estimate_def ratio_if_truthy_def
      truthy_def)

subsection \<open>Dividend growth\<close>

lemma fifth_root_of_two: "1.14865 < (2::real) powr (1 / 5) \<and> (2::real) powr (1 / 5) < 1.14875"
proof -
  define r :: real where "r = 2 powr (1 / 5)"
  define lo :: real where "lo = 1.14865"
  define hi :: real where "hi = 1.14875"
  have eq: "r ^ 5 = 2"
  proof -
    have "r ^ 5 = r powr (of_nat 5)"
      unfolding r_def by (rule powr_realpow [symmetric]) simp
    also have "\<dots> = 2 powr ((1 / 5) * 5)" unfolding r_def by (simp add: powr_powr)
    finally show ?thesis by simp
  qed
  have pos: "0 \<le> r" "0 \<le> hi" by (simp_all add: r_def hi_def)
  have lo5: "lo ^ 5 < 2" by (simp add: lo_def power_numeral_reduce)
  have hi5: "2 < hi ^ 5" by (simp add: hi_def power_numeral_reduce)
  have "lo < r"
  proof (rule ccontr)
    assume "\<not> lo < r"
    then have "r \<le> lo" by simp
    then have "r ^ 5 \<le> lo ^ 5" using pos(1) by (rule power_mono)
    then show False using eq lo5 by linarith
  qed
  moreover have "r < hi"
  proof (rule ccontr)
    assume "\<not> r < hi"
    then have "hi \<le> r" by simp
    then have "hi ^ 5 \<le> r ^ 5" using pos(2) by (rule power_mono)
    then show False using eq hi5 by linarith
  qed
  ultimately show ?thesis by (simp add: r_def lo_def hi_def)
qed

lemma annual_growth_example:
  "annual_growth [10, 10, 10, 10, 20] = Some ((2 powr (1 / 5) - 1) * 100)"
  by (simp add: annual_growth_def)

lemma resample_empty: "resample_YE_sum [] = []"
  by (simp add: resample_YE_sum_def)

text \<open>
  C6. From the annual totals, the growth is absent when there are fewer than five of them
  or when the fifth from the end (the oldest one used) is not positive; otherwise it is
  \<open>((newest / oldest) powr (1/5) - 1) * 100\<close> with the newest the last total. For the totals
  10, 10, 10, 10, 20 it is \<open>(2 powr (1/5) - 1) * 100\<close>, between 14.865 and 14.875. The
  derived field is this growth of the resampled dividends, and absent when the dividends
  cannot be read.
\<close>

theorem dividend_growth_formula:
  "(length xs < 5 \<longrightarrow> annual_growth xs = None)
   \<and> (length xs \<ge> 5 \<and> xs ! (length xs - 5) \<le> 0 \<longrightarrow> annual_growth xs = None)
   \<and> (length xs \<ge> 5 \<and> xs ! (length xs - 5) > 0 \<longrightarrow>
        annual_growth xs
          = Some (((last xs / xs ! (length xs - 5)) powr (1 / 5) - 1) * 100))
   \<and> annual_growth [10, 10, 10, 10, 20] = Some ((2 powr (1 / 5) - 1) * 100)
   \<and> 14.865 < ((2::real) powr (1 / 5) - 1) * 100
   \<and> ((2::real) powr (1 / 5) - 1) * 100 < 14.875
   \<and> (\<forall>d. get_stock_data t stock = Some d \<longrightarrow>
         (dividends stock = None \<longrightarrow> dividend_growth_5yr d = None)
         \<and> (\<forall>ds. dividends stock = Some ds \<longrightarrow>
               dividend_growth_5yr d = annual_growth (resample_YE_sum ds)))"
proof -
  have short: "annual_growth xs = None" if "length xs < 5"
    using that by (simp add: annual_growth_def)
  have nonpos: "annual_growth xs = None" if "length xs \<ge> 5" "xs ! (length xs - 5) \<le> 0"
    using that by (simp add: annual_growth_def Let_def)
  have formula: "annual_growth xs
      = Some (((last xs / xs ! (length xs - 5)) powr (1 / 5) - 1) * 100)"
    if "length xs \<ge> 5" "xs ! (length xs - 5) > 0"
  proof -
    from that(1) have "xs \<noteq> []" by auto
    then have "last xs = xs ! (length xs - 1)" by (rule last_conv_nth)
    then show ?thesis using that by (simp add: annual_growth_def Let_def)
  qed
  have bounds: "14.865 < ((2::real) powr (1 / 5) - 1) * 100"
    "((2::real) powr (1 / 5) - 1) * 100 < 14.875"
    using fifth_root_of_two by simp_all
  have derived: "(dividends stock = None \<longrightarrow> dividend_growth_5yr d = None)
         \<and> (\<forall>ds. dividends stock = Some ds \<longrightarrow>
               dividend_growth_5yr d = annual_growth (resample_YE_sum ds))"
    if "get_stock_data t stock = Some d" for d
    using get_stock_data_fields(3) [OF that]
    by (auto simp: dividend_growth_def resample_empty annual_growth_def)
  show ?thesis
    using short nonpos formula bounds derived annual_growth_example by blast
qed

theorem dividend_growth_formula_witness:
  "resample_YE_sum [(2019, 10), (2020, 10), (2021, 10), (2022, 10), (2023, 10), (2023, 10)]
     = [10, 10, 10, 10, 20]
   \<and> map_option dividend_growth_5yr (get_stock_data ''FIVE'' five_years)
       = Some (Some ((2 powr (1 / 5) - 1) * 100))
   \<and> annual_growth [10, 10, 10, 20] = None
   \<and> annual_growth [0, 10, 10, 10, 20] = None
   \<and> annual_growth [5, 10, 10, 10, 10, 20] = Some ((2 powr (1 / 5) - 1) * 100)"
proof -
  have rs: "resample_YE_sum [(2019, 10), (2020, 10), (2021, 10), (2022, 10), (2023, 10), (2023, 10)]
     = [10, 10, 10, 10, 20]"
    by (simp add: resample_YE_sum_def upto.simps)
  obtain d where d: "get_stock_data ''FIVE'' five_years = Some d"
    by (auto simp: get_stock_data_def Let_def provider_defs)
  note inst = dividend_growth_formula [where t = "''FIVE''" and stock = five_years]
  have "dividend_growth_5yr d = Some ((2 powr (1 / 5) - 1) * 100)"
    using inst [of "[]"] d rs by (simp add: provider_defs)
  moreover have "annual_growth [10, 10, 10, 20] = None"
    using inst [of "[10, 10, 10, 20]"] by simp
  moreover have "annual_growth [0, 10, 10, 10, 20] = None"
    using inst [of "[0, 10, 10, 10, 20]"] by simp
  moreover have "annual_growth [5, 10, 10, 10, 10, 20] = Some ((2 powr (1 / 5) - 1) * 100)"
    using inst [of "[5, 10, 10, 10, 10, 20]"] by simp
  ultimately show ?thesis using rs by (simp add: d)
qed

section \<open>Properties of the watchlist files\<close>

subsection \<open>Lines of a file\<close>

lemma universal_newlines_id: "CHR 0x0D \<notin> set s \<Longrightarrow> universal_newlines s = s"
  by (induction s rule: universal_newlines.induct) auto

lemma lines_acc_line:
  "CHR 0x0A \<notin> set l \<Longrightarrow>
     lines_acc cur (l @ CHR 0x0A # rest) = (cur @ l @ [CHR 0x0A]) # lines_acc [] rest"
  by (induction l arbitrary: cur) auto

lemma lines_acc_ticker_lines:
  assumes "\<forall>t \<in> set ts. CHR 0x0A \<notin> set t"
  shows "lines_acc [] (concat (map (\<lambda>t. t @ [CHR 0x0A]) ts)) = map (\<lambda>t. t @ [CHR 0x0A]) ts"
  using assms
proof (induction ts)
  case Nil
  then show ?case by simp
next
  case (Cons t ts)
  then have "CHR 0x0A \<notin> set t" by simp
  from lines_acc_line [OF this, of "[]" "concat (map (\<lambda>t. t @ [CHR 0x0A]) ts)"]
  show ?case using Cons by simp
qed

subsection \<open>Stripping and splitting\<close>

lemma strip_keeps_head:
  assumes "\<not> is_space c"
  shows "strip (c # s) = c # rev (dropWhile is_space (rev s))"
  using assms by (simp add: strip_def dropWhile_append3)

lemma strip_line_feed: "strip [CHR 0x0A] = []"
  by (simp add: strip_def is_space_def)

lemma plain_ticker_no_breaks:
  assumes "plain_ticker t"
  shows "CHR 0x0A \<notin> set t" and "CHR 0x0D \<notin> set t"
  using assms by (auto simp: plain_ticker_def list_all_iff is_space_def)

lemma strip_ticker_line:
  assumes "plain_ticker t"
  shows "strip (t @ [CHR 0x0A]) = t"
proof -
  from assms obtain c cs where t: "t = c # cs" and c: "\<not> is_space c"
    by (cases t) (auto simp: plain_ticker_def)
  from assms have all: "\<forall>x \<in> set t. \<not> is_space x"
    by (simp add: plain_ticker_def list_all_iff)
  have nl: "is_space (CHR 0x0A)" by (simp add: is_space_def)
  have "rev (cs @ [CHR 0x0A]) = CHR 0x0A # rev cs" by simp
  moreover have "dropWhile is_space (rev cs) = rev cs"
    using all t by (cases "rev cs") (auto simp: dropWhile_eq_self_iff)
  ultimately have "rev (dropWhile is_space (rev (cs @ [CHR 0x0A]))) = cs"
    using nl by simp
  then show ?thesis
    using strip_keeps_head [OF c, of "cs @ [CHR 0x0A]"] t by simp
qed

lemma split_acc_plain:
  "list_all (\<lambda>c. \<not> is_space c) t \<Longrightarrow>
     split_acc cur t = (if cur @ t = [] then [] else [cur @ t])"
  by (induction t arbitrary: cur) auto

lemma split_plain_ticker: "plain_ticker t \<Longrightarrow> split_ws t = [t]"
  by (simp add: split_ws_def split_acc_plain plain_ticker_def)

subsection \<open>Round trip\<close>

lemma load_lines_ticker_lines:
  assumes "\<forall>t \<in> set ts. plain_ticker t"
  shows "load_lines acc (map (\<lambda>t. t @ [CHR 0x0A]) ts) = Inr (acc @ map upper ts)"
  using assms
proof (induction ts arbitrary: acc)
  case Nil
  then show ?case by simp
next
  case (Cons t ts)
  then have pt: "plain_ticker t" by simp
  then have "t \<noteq> []" and "\<not> starts_with t ''#''" by (simp_all add: plain_ticker_def)
  then have "load_lines acc ((t @ [CHR 0x0A]) # map (\<lambda>t. t @ [CHR 0x0A]) ts)
      = load_lines (acc @ [upper t]) (map (\<lambda>t. t @ [CHR 0x0A]) ts)"
    by (simp add: strip_ticker_line [OF pt] split_plain_ticker [OF pt])
  then show ?case using Cons by simp
qed

lemma load_lines_header:
  "load_lines acc ((''# Stock Watchlist'' @ [CHR 0x0A])
                   # (''# Generated on '' @ stamp @ [CHR 0x0A]) # [CHR 0x0A] # rest)
     = load_lines acc rest"
proof -
  have hash: "\<not> is_space (CHR ''#'')" by (simp add: is_space_def)
  have l1: "strip (''# Stock Watchlist'' @ [CHR 0x0A])
              = CHR ''#'' # rev (dropWhile is_space (rev ('' Stock Watchlist'' @ [CHR 0x0A])))"
    using strip_keeps_head [OF hash, of "'' Stock Watchlist'' @ [CHR 0x0A]"] by simp
  have l2: "strip (''# Generated on '' @ stamp @ [CHR 0x0A])
              = CHR ''#'' # rev (dropWhile is_space (rev ('' Generated on '' @ stamp @ [CHR 0x0A])))"
    using strip_keeps_head [OF hash, of "'' Generated on '' @ stamp @ [CHR 0x0A]"] by simp
  show ?thesis
    by (simp only: load_lines.simps Let_def l1 l2 strip_line_feed) simp
qed

lemma file_lines_watchlist_text:
  assumes "\<forall>t \<in> set ts. plain_ticker t" and "single_line stamp"
  shows "file_lines (watchlist_text ts stamp)
           = (''# Stock Watchlist'' @ [CHR 0x0A])
             # (''# Generated on '' @ stamp @ [CHR 0x0A]) # [CHR 0x0A]
             # map (\<lambda>t. t @ [CHR 0x0A]) ts"
proof -
  let ?body = "concat (map (\<lambda>t. t @ [CHR 0x0A]) ts)"
  have st: "CHR 0x0A \<notin> set stamp" "CHR 0x0D \<notin> set stamp"
    using assms(2) by (auto simp: single_line_def list_all_iff)
  have ts: "\<forall>t \<in> set ts. CHR 0x0A \<notin> set t" "\<forall>t \<in> set ts. CHR 0x0D \<notin> set t"
    using assms(1) plain_ticker_no_breaks by blast+
  have "CHR 0x0D \<notin> set (watchlist_text ts stamp)"
    using st ts by (auto simp: watchlist_text_def)
  then have un: "universal_newlines (watchlist_text ts stamp) = watchlist_text ts stamp"
    by (rule universal_newlines_id)
  have a: "lines_acc [] (''# Stock Watchlist'' @ CHR 0x0A # xs)
             = (''# Stock Watchlist'' @ [CHR 0x0A]) # lines_acc [] xs" for xs
    using lines_acc_line [of "''# Stock Watchlist''" "[]" xs] by simp
  have b: "lines_acc [] ((''# Generated on '' @ stamp) @ CHR 0x0A # xs)
             = (''# Generated on '' @ stamp @ [CHR 0x0A]) # lines_acc [] xs" for xs
    using lines_acc_line [of "''# Generated on '' @ stamp" "[]" xs] st by simp
  have c: "lines_acc [] ([] @ CHR 0x0A # xs) = [CHR 0x0A] # lines_acc [] xs" for xs
    using lines_acc_line [of "[]" "[]" xs] by simp
  have "watchlist_text ts stamp
          = ''# Stock Watchlist'' @ CHR 0x0A # ((''# Generated on '' @ stamp) @ CHR 0x0A
              # ([] @ CHR 0x0A # ?body))"
    by (simp add: watchlist_text_def)
  then have "lines_acc [] (watchlist_text ts stamp)
          = (''# Stock Watchlist'' @ [CHR 0x0A])
             # (''# Generated on '' @ stamp @ [CHR 0x0A]) # [CHR 0x0A] # lines_acc [] ?body"
    by (simp only: a b c)
  then show ?thesis
    by (simp only: file_lines_def un lines_acc_ticker_lines [OF ts(1)])
qed

text \<open>
  C10 (as amended). Saving a list of tickers and loading the file again gives the same
  tickers, as many and in the same order, each in upper case, provided every ticker is
  not empty, contains no whitespace and does not start with \<open>#\<close> (and the timestamp of the
  header is a single line). Without the proviso the round trip fails: a ticker with a
  space comes back cut at the space, and an empty ticker or one starting with \<open>#\<close> does not
  come back at all.
\<close>

theorem watchlist_round_trip:
  assumes "\<forall>t \<in> set tickers. plain_ticker t" and "single_line stamp"
  shows "load_watchlist (save_watchlist fs tickers filename stamp) filename
           = Inr (map upper tickers)
         \<and> length (map upper tickers) = length tickers"
proof -
  have "load_watchlist (save_watchlist fs tickers filename stamp) filename
          = load_lines [] (file_lines (watchlist_text tickers stamp))"
    by (simp add: load_watchlist_def save_watchlist_def)
  also have "\<dots> = load_lines [] (map (\<lambda>t. t @ [CHR 0x0A]) tickers)"
    by (simp only: file_lines_watchlist_text [OF assms] load_lines_header)
  also have "\<dots> = Inr (map upper tickers)"
    using load_lines_ticker_lines [OF assms(1), of "[]"] by simp
  finally show ?thesis by simp
qed

theorem watchlist_round_trip_witness:
  "load_watchlist
     (save_watchlist Map.empty [''jnj'', ''BRK.B'', ''ko''] ''watchlist.txt'' ''2024-01-15 09:30:00'')
     ''watchlist.txt''
   = Inr [''JNJ'', ''BRK.B'', ''KO'']"
proof -
  have p: "\<forall>t \<in> set [''jnj'', ''BRK.B'', ''ko'']. plain_ticker t"
    by (simp add: plain_ticker_def is_space_def)
  have s: "single_line ''2024-01-15 09:30:00''"
    by (simp add: single_line_def)
  show ?thesis
    using watchlist_round_trip [OF p s, of Map.empty "''watchlist.txt''"]
    by (simp add: upper_def upper_char_def)
qed

theorem watchlist_round_trip_counterexample:
  "load_watchlist
     (save_watchlist Map.empty [''JNJ'', ''BRK B''] ''watchlist.txt'' ''2024-01-15 09:30:00'')
     ''watchlist.txt''
   = Inr [''JNJ'', ''BRK'']
   \<and> load_watchlist
     (save_watchlist Map.empty [''JNJ'', ''BRK B''] ''watchlist.txt'' ''2024-01-15 09:30:00'')
     ''watchlist.txt''
   \<noteq> Inr (map upper [''JNJ'', ''BRK B''])
   \<and> load_watchlist
     (save_watchlist Map.empty [''JNJ'', ''#ko'', ''''] ''watchlist.txt'' ''2024-01-15 09:30:00'')
     ''watchlist.txt''
   = Inr [''JNJ'']"
  by (simp add: load_watchlist_def save_watchlist_def watchlist_text_def file_lines_def
      strip_def is_space_def split_ws_def upper_def upper_char_def)

end
